theory Spec2Isabelle
  imports Main "HOL-Library.Word"
begin

section \<open>Values, errors and the outside world\<close>

text \<open>
  A shallow embedding of \<^verbatim>\<open>pyperclipfix/__init__.py\<close>.

  Python \<^verbatim>\<open>str\<close> and \<^verbatim>\<open>bytes\<close> are both modelled as \<open>string\<close>; a character of a
  \<^verbatim>\<open>str\<close> is a code point below 256. A \<^verbatim>\<open>float\<close> is its 64-bit pattern. A value whose
  class is none of \<^verbatim>\<open>str\<close>, \<^verbatim>\<open>int\<close>, \<^verbatim>\<open>float\<close>, \<^verbatim>\<open>bool\<close> (nor a subclass)
  is \<open>PyNone\<close> or \<open>PyObject\<close> with the name of its class.
\<close>

datatype pyvalue =
    PyStr string
  | PyInt int
  | PyFloat "64 word"
  | PyBool bool
  | PyNone
  | PyObject string

text \<open>
  The exceptions the module raises or lets through. In the source
  \<^verbatim>\<open>PyperclipWindowsException\<close> and \<^verbatim>\<open>PyperclipTimeoutException\<close> are subclasses of
  \<^verbatim>\<open>PyperclipException\<close>; each carries its message.
\<close>

datatype error =
    PyperclipException string
  | PyperclipWindowsException string
  | PyperclipTimeoutException string
  | ValueError string
  | TypeError
  | IndexError
  | ImportError
  | AttributeError
  | OSError
  | CalledProcessError
  | UnicodeError

text \<open>
  Everything the module asks of the operating system is a request; the answer comes from
  an oracle, so that a theorem about all oracles is a theorem about every behaviour of the
  system outside.
\<close>

datatype request =
    Popen "string list"
  | Communicate "string option"
  | Check_call "string list"
  | Run_shell string
  | Which string
  | Open_file string string
  | File_write string
  | File_read
  | File_close
  | Warn string
  | NSString_data string
  | NSPasteboard_declareTypes
  | NSPasteboard_setData string
  | NSPasteboard_stringForType
  | QApplication_instance
  | QApplication_new
  | QClipboard_setText string
  | QClipboard_text
  | CreateWindowExA
  | DestroyWindow nat
  | OpenClipboard nat
  | CloseClipboard
  | EmptyClipboard
  | GetClipboardData nat
  | SetClipboardData nat nat
  | GlobalAlloc nat nat
  | GlobalLock nat
  | GlobalUnlock nat
  | Wcslen string
  | Memmove nat string nat
  | Read_wchar_p nat
  | WinError
  | Sleep nat

text \<open>
  An answer: \<open>ret\<close> is the integer or handle a native call returns (0 is \<^verbatim>\<open>NULL\<close>,
  \<^verbatim>\<open>None\<close> or \<^verbatim>\<open>False\<close>) or the return code of a process; \<open>errno\<close> is what
  \<^verbatim>\<open>ctypes.get_errno()\<close> reads right after the call; \<open>out\<close> is the text a call yields
  (standard output, a file's content, a string in memory), \<open>None\<close> when it yields
  \<^verbatim>\<open>None\<close>; \<open>exc\<close> is the exception the call itself throws; \<open>elapsed\<close> is the time the
  call takes, in microseconds.
\<close>

record response =
  ret :: nat
  errno :: nat
  out :: "string option"
  exc :: "error option"
  elapsed :: nat

type_synonym event = "request \<times> response"

text \<open>The oracle sees the clock and everything that has happened so far.\<close>

type_synonym host = "nat \<Rightarrow> event list \<Rightarrow> request \<Rightarrow> response"

text \<open>
  The bindings of the module's globals \<^verbatim>\<open>copy\<close> and \<^verbatim>\<open>paste\<close>: a lazy stub or a
  function returned by a backend's initializer.
\<close>

datatype backend =
    Gpaste | OsxPbcopy | OsxPyobjc | Qt | Xclip | Xsel | WlClipboard | Klipper
  | Windows | Wsl | DevClipboard | NoClipboard

datatype copy_fn = lazy_load_stub_copy | backend_copy backend

datatype paste_fn = lazy_load_stub_paste | backend_paste backend

text \<open>
  The state: the clock in microseconds (\<^verbatim>\<open>time.time()\<close> reads it), the requests made so
  far with their answers, oldest first, and the two globals.
\<close>

record state =
  clock :: nat
  trace :: "event list"
  g_copy :: copy_fn
  g_paste :: paste_fn

type_synonym 'a io = "state \<Rightarrow> (error + 'a) \<times> state"

definition perform :: "host \<Rightarrow> request \<Rightarrow> state \<Rightarrow> response \<times> state" where
  "perform os rq s =
     (let r = os (clock s) (trace s) rq
      in (r, s\<lparr>clock := clock s + elapsed r +
                   (case rq of Sleep d \<Rightarrow> d | _ \<Rightarrow> 0),
                 trace := trace s @ [(rq, r)]\<rparr>))"

definition io_return :: "'a \<Rightarrow> 'a io" where
  "io_return x s = (Inr x, s)"

definition io_raise :: "error \<Rightarrow> 'a io" where
  "io_raise e s = (Inl e, s)"

definition io_bind :: "'a io \<Rightarrow> ('a \<Rightarrow> 'b io) \<Rightarrow> 'b io" where
  "io_bind m f s = (case m s of (Inl e, s1) \<Rightarrow> (Inl e, s1) | (Inr x, s1) \<Rightarrow> f x s1)"

definition io_of :: "error + 'a \<Rightarrow> 'a io" where
  "io_of r s = (r, s)"

text \<open>A call that may throw: the oracle's \<open>exc\<close> is the exception.\<close>

definition call :: "host \<Rightarrow> request \<Rightarrow> response io" where
  "call os rq s =
     (let (r, s1) = perform os rq s
      in case exc r of Some e \<Rightarrow> (Inl e, s1) | None \<Rightarrow> (Inr r, s1))"

text \<open>
  \<^verbatim>\<open>try: body finally: cleanup\<close>: the cleanup runs on every exit of the body; when it
  throws, its exception replaces the body's result.
\<close>

definition try_finally :: "'a io \<Rightarrow> unit io \<Rightarrow> 'a io" where
  "try_finally body cleanup s =
     (case body s of (r, s1) \<Rightarrow>
        (case cleanup s1 of (Inl e, s2) \<Rightarrow> (Inl e, s2) | (Inr _, s2) \<Rightarrow> (r, s2)))"

section \<open>Strings\<close>

definition digit_char :: "nat \<Rightarrow> char" where
  "digit_char d = ''0123456789'' ! d"

function str_nat :: "nat \<Rightarrow> string" where
  "str_nat n = (if n < 10 then [digit_char n] else str_nat (n div 10) @ [digit_char (n mod 10)])"
  by pat_completeness auto
termination
  by (relation "measure id") auto

text \<open>\<^verbatim>\<open>str\<close> of an \<^verbatim>\<open>int\<close> and of a \<^verbatim>\<open>bool\<close>.\<close>

definition str_int :: "int \<Rightarrow> string" where
  "str_int i = (if i < 0 then CHR ''-'' # str_nat (nat (- i)) else str_nat (nat i))"

definition str_bool :: "bool \<Rightarrow> string" where
  "str_bool b = (if b then ''True'' else ''False'')"

text \<open>\<^verbatim>\<open>str.lower()\<close> on code points below 256.\<close>

definition uppercase :: string where
  "uppercase = ''ABCDEFGHIJKLMNOPQRSTUVWXYZ'' @
     [CHR 0xC0, CHR 0xC1, CHR 0xC2, CHR 0xC3, CHR 0xC4, CHR 0xC5, CHR 0xC6, CHR 0xC7,
      CHR 0xC8, CHR 0xC9, CHR 0xCA, CHR 0xCB, CHR 0xCC, CHR 0xCD, CHR 0xCE, CHR 0xCF,
      CHR 0xD0, CHR 0xD1, CHR 0xD2, CHR 0xD3, CHR 0xD4, CHR 0xD5, CHR 0xD6, CHR 0xD8,
      CHR 0xD9, CHR 0xDA, CHR 0xDB, CHR 0xDC, CHR 0xDD, CHR 0xDE]"

definition lowercase :: string where
  "lowercase = ''abcdefghijklmnopqrstuvwxyz'' @
     [CHR 0xE0, CHR 0xE1, CHR 0xE2, CHR 0xE3, CHR 0xE4, CHR 0xE5, CHR 0xE6, CHR 0xE7,
      CHR 0xE8, CHR 0xE9, CHR 0xEA, CHR 0xEB, CHR 0xEC, CHR 0xED, CHR 0xEE, CHR 0xEF,
      CHR 0xF0, CHR 0xF1, CHR 0xF2, CHR 0xF3, CHR 0xF4, CHR 0xF5, CHR 0xF6, CHR 0xF8,
      CHR 0xF9, CHR 0xFA, CHR 0xFB, CHR 0xFC, CHR 0xFD, CHR 0xFE]"

definition lower_char :: "char \<Rightarrow> char" where
  "lower_char c = (case map_of (zip uppercase lowercase) c of None \<Rightarrow> c | Some l \<Rightarrow> l)"

definition lower :: "string \<Rightarrow> string" where
  "lower s = map lower_char s"

fun startswith :: "string \<Rightarrow> string \<Rightarrow> bool" where
  "startswith s [] = True"
| "startswith [] (p # ps) = False"
| "startswith (c # cs) (p # ps) = (c = p \<and> startswith cs ps)"

text \<open>\<^verbatim>\<open>sub in s\<close>.\<close>

fun contains :: "string \<Rightarrow> string \<Rightarrow> bool" where
  "contains sub [] = (sub = [])"
| "contains sub (c # cs) = (startswith (c # cs) sub \<or> contains sub cs)"

section \<open>The environment snapshot\<close>

text \<open>
  What resolution and the initializers read of the host, and the library functions they
  use: \<^verbatim>\<open>platform.system()\<close>, \<^verbatim>\<open>os.name\<close>, the two file probes, the content of
  \<^verbatim>\<open>/proc/version\<close>, whether a module can be imported (a failed import raises
  \<^verbatim>\<open>ImportError\<close>), \<^verbatim>\<open>os.getenv\<close>, whether \<^verbatim>\<open>ctypes.windll\<close> exists, \<^verbatim>\<open>str\<close> of a float, and the UTF-8 codec
  (\<^verbatim>\<open>decode\<close> takes the \<^verbatim>\<open>errors\<close> mode).
\<close>

record env =
  platform_system :: string
  os_name :: string
  exists_dev_clipboard :: bool
  isfile_proc_version :: bool
  proc_version :: string
  importable :: "string \<Rightarrow> bool"
  getenv :: "string \<Rightarrow> string option"
  has_windll :: bool
  str_float :: "64 word \<Rightarrow> string"
  encode :: "string \<Rightarrow> error + string"
  decode :: "string \<Rightarrow> string \<Rightarrow> error + string"

section \<open>Text coercion\<close>

definition class_name :: "pyvalue \<Rightarrow> string" where
  "class_name v =
     (case v of PyStr _ \<Rightarrow> ''str'' | PyInt _ \<Rightarrow> ''int'' | PyFloat _ \<Rightarrow> ''float''
      | PyBool _ \<Rightarrow> ''bool'' | PyNone \<Rightarrow> ''NoneType'' | PyObject n \<Rightarrow> n)"

definition str_of :: "env \<Rightarrow> pyvalue \<Rightarrow> string" where
  "str_of env v =
     (case v of PyStr s \<Rightarrow> s | PyInt i \<Rightarrow> str_int i | PyFloat f \<Rightarrow> str_float env f
      | PyBool b \<Rightarrow> str_bool b | PyNone \<Rightarrow> ''None'' | PyObject n \<Rightarrow> n)"

definition accepted :: "pyvalue \<Rightarrow> bool" where
  "accepted v =
     (case v of PyStr _ \<Rightarrow> True | PyInt _ \<Rightarrow> True | PyFloat _ \<Rightarrow> True | PyBool _ \<Rightarrow> True
      | _ \<Rightarrow> False)"

definition stringifyText :: "env \<Rightarrow> pyvalue \<Rightarrow> error + string" where
  "stringifyText env text =
     (if \<not> accepted text then
        Inl (PyperclipException
          (''only str, int, float, and bool values can be copied to the clipboard, not ''
             @ class_name text))
      else Inr (str_of env text))"

section \<open>External-process and toolkit backends\<close>

definition stdout :: "response \<Rightarrow> string" where
  "stdout r = (case out r of None \<Rightarrow> [] | Some b \<Rightarrow> b)"

text \<open>\<^verbatim>\<open>subprocess.check_call\<close>: a nonzero return code raises.\<close>

definition check_call :: "host \<Rightarrow> string list \<Rightarrow> unit io" where
  "check_call os args =
     io_bind (call os (Check_call args)) (\<lambda>r.
       if ret r \<noteq> 0 then io_raise CalledProcessError else io_return ())"

definition copy_osx_pbcopy :: "env \<Rightarrow> host \<Rightarrow> pyvalue \<Rightarrow> pyvalue io" where
  "copy_osx_pbcopy env os text =
     io_bind (io_of (stringifyText env text)) (\<lambda>text.
     io_bind (call os (Popen [''pbcopy'', ''w''])) (\<lambda>p.
     io_bind (io_of (encode env text)) (\<lambda>input.
     io_bind (call os (Communicate (Some input))) (\<lambda>_. io_return PyNone))))"

definition paste_osx_pbcopy :: "env \<Rightarrow> host \<Rightarrow> string \<Rightarrow> pyvalue io" where
  "paste_osx_pbcopy env os errors =
     io_bind (call os (Popen [''pbpaste'', ''r''])) (\<lambda>p.
     io_bind (call os (Communicate None)) (\<lambda>r.
     io_bind (io_of (decode env errors (stdout r))) (\<lambda>t. io_return (PyStr t))))"

definition copy_osx_pyobjc :: "env \<Rightarrow> host \<Rightarrow> pyvalue \<Rightarrow> pyvalue io" where
  "copy_osx_pyobjc env os text =
     io_bind (io_of (stringifyText env text)) (\<lambda>text.
     io_bind (call os (NSString_data text)) (\<lambda>newData.
     io_bind (call os NSPasteboard_declareTypes) (\<lambda>_.
     io_bind (call os (NSPasteboard_setData (stdout newData))) (\<lambda>_. io_return PyNone))))"

text \<open>\<^verbatim>\<open>stringForType_\<close> yields \<^verbatim>\<open>None\<close> when the pasteboard has no string.\<close>

definition paste_osx_pyobjc :: "host \<Rightarrow> pyvalue io" where
  "paste_osx_pyobjc os =
     io_bind (call os NSPasteboard_stringForType) (\<lambda>content.
       io_return (case out content of None \<Rightarrow> PyNone | Some t \<Rightarrow> PyStr t))"

definition copy_qt :: "env \<Rightarrow> host \<Rightarrow> pyvalue \<Rightarrow> pyvalue io" where
  "copy_qt env os text =
     io_bind (io_of (stringifyText env text)) (\<lambda>text.
     io_bind (call os (QClipboard_setText text)) (\<lambda>_. io_return PyNone))"

definition paste_qt :: "host \<Rightarrow> pyvalue io" where
  "paste_qt os =
     io_bind (call os QClipboard_text) (\<lambda>r.
       io_return (PyStr (case out r of None \<Rightarrow> ''None'' | Some t \<Rightarrow> t)))"

definition copy_xclip :: "env \<Rightarrow> host \<Rightarrow> pyvalue \<Rightarrow> bool \<Rightarrow> pyvalue io" where
  "copy_xclip env os text primary =
     io_bind (io_of (stringifyText env text)) (\<lambda>text.
     let selection = (if primary then ''p'' else ''c'') in
     io_bind (call os (Popen [''xclip'', ''-selection'', selection])) (\<lambda>p.
     io_bind (io_of (encode env text)) (\<lambda>input.
     io_bind (call os (Communicate (Some input))) (\<lambda>_. io_return PyNone))))"

definition paste_xclip :: "env \<Rightarrow> host \<Rightarrow> bool \<Rightarrow> pyvalue io" where
  "paste_xclip env os primary =
     (let selection = (if primary then ''p'' else ''c'') in
      io_bind (call os (Popen [''xclip'', ''-selection'', selection, ''-o''])) (\<lambda>p.
      io_bind (call os (Communicate None)) (\<lambda>r.
      io_bind (io_of (decode env ''strict'' (stdout r))) (\<lambda>t. io_return (PyStr t)))))"

definition copy_xsel :: "env \<Rightarrow> host \<Rightarrow> pyvalue \<Rightarrow> bool \<Rightarrow> pyvalue io" where
  "copy_xsel env os text primary =
     io_bind (io_of (stringifyText env text)) (\<lambda>text.
     let selection_flag = (if primary then ''-p'' else ''-b'') in
     io_bind (call os (Popen [''xsel'', selection_flag, ''-i''])) (\<lambda>p.
     io_bind (io_of (encode env text)) (\<lambda>input.
     io_bind (call os (Communicate (Some input))) (\<lambda>_. io_return PyNone))))"

definition paste_xsel :: "env \<Rightarrow> host \<Rightarrow> bool \<Rightarrow> pyvalue io" where
  "paste_xsel env os primary =
     (let selection_flag = (if primary then ''-p'' else ''-b'') in
      io_bind (call os (Popen [''xsel'', selection_flag, ''-o''])) (\<lambda>p.
      io_bind (call os (Communicate None)) (\<lambda>r.
      io_bind (io_of (decode env ''strict'' (stdout r))) (\<lambda>t. io_return (PyStr t)))))"

definition copy_wl :: "env \<Rightarrow> host \<Rightarrow> pyvalue \<Rightarrow> bool \<Rightarrow> pyvalue io" where
  "copy_wl env os text primary =
     io_bind (io_of (stringifyText env text)) (\<lambda>text.
     let args = [''wl-copy''] @ (if primary then [''-p''] else []) in
     if text = [] then
       io_bind (check_call os (args @ [''--clear''])) (\<lambda>_. io_return PyNone)
     else
       io_bind (call os (Popen args)) (\<lambda>p.
       io_bind (io_of (encode env text)) (\<lambda>input.
       io_bind (call os (Communicate (Some input))) (\<lambda>_. io_return PyNone))))"

definition paste_wl :: "env \<Rightarrow> host \<Rightarrow> bool \<Rightarrow> pyvalue io" where
  "paste_wl env os primary =
     (let args = [''wl-paste'', ''-n'', ''-t'', ''text''] @ (if primary then [''-p''] else []) in
      io_bind (call os (Popen args)) (\<lambda>p.
      io_bind (call os (Communicate None)) (\<lambda>r.
      io_bind (io_of (decode env ''strict'' (stdout r))) (\<lambda>t. io_return (PyStr t)))))"

subsection \<open>gpaste\<close>

text \<open>\<^verbatim>\<open>str.splitlines()\<close> and \<^verbatim>\<open>str.strip()\<close> on code points below 256.\<close>

definition linebreak :: "char \<Rightarrow> bool" where
  "linebreak c =
     (c \<in> {CHR 0x0A, CHR 0x0B, CHR 0x0C, CHR 0x0D, CHR 0x1C, CHR 0x1D, CHR 0x1E, CHR 0x85})"

fun splitlines_from :: "string \<Rightarrow> string \<Rightarrow> string list" where
  "splitlines_from cur [] = (if cur = [] then [] else [cur])"
| "splitlines_from cur [c] = (if linebreak c then [cur] else [cur @ [c]])"
| "splitlines_from cur (c # d # cs) =
     (if c = CHR 0x0D \<and> d = CHR 0x0A then cur # splitlines_from [] cs
      else if linebreak c then cur # splitlines_from [] (d # cs)
      else splitlines_from (cur @ [c]) (d # cs))"

definition splitlines :: "string \<Rightarrow> string list" where
  "splitlines t = splitlines_from [] t"

definition isspace :: "char \<Rightarrow> bool" where
  "isspace c =
     (c \<in> {CHR 0x09, CHR 0x0A, CHR 0x0B, CHR 0x0C, CHR 0x0D, CHR 0x1C, CHR 0x1D, CHR 0x1E,
            CHR 0x1F, CHR 0x20, CHR 0x85, CHR 0xA0})"

definition strip :: "string \<Rightarrow> string" where
  "strip t = rev (dropWhile isspace (rev (dropWhile isspace t)))"

definition start_client_gpaste :: "host \<Rightarrow> unit io" where
  "start_client_gpaste os =
     io_bind (call os (Run_shell ''gpaste-client daemon-reexec & exit'')) (\<lambda>_.
     io_bind (call os (Run_shell ''gpaste-client start & exit'')) (\<lambda>_. io_return ()))"

definition copy_gpaste :: "env \<Rightarrow> host \<Rightarrow> pyvalue \<Rightarrow> pyvalue io" where
  "copy_gpaste env os text =
     io_bind (io_of (stringifyText env text)) (\<lambda>text.
     if text = [] then
       io_bind (check_call os [''gpaste-client'', ''delete-history'']) (\<lambda>_. io_return PyNone)
     else
       io_bind (call os (Popen [''gpaste-client'', ''add''])) (\<lambda>p.
       io_bind (io_of (encode env text)) (\<lambda>input.
       io_bind (call os (Communicate (Some input))) (\<lambda>_. io_return PyNone))))"

text \<open>Index 0 of the list of stripped lines: \<^verbatim>\<open>IndexError\<close> when there is no line.\<close>

definition paste_gpaste :: "host \<Rightarrow> pyvalue io" where
  "paste_gpaste os =
     io_bind (call os (Run_shell ''gpaste-client history --raw & exit'')) (\<lambda>result.
       case map strip (splitlines (stdout result)) of
         [] \<Rightarrow> io_raise IndexError
       | last_item_in_history # _ \<Rightarrow> io_return (PyStr last_item_in_history))"

subsection \<open>klipper, /dev/clipboard, WSL and the sentinel\<close>

definition copy_klipper :: "env \<Rightarrow> host \<Rightarrow> pyvalue \<Rightarrow> pyvalue io" where
  "copy_klipper env os text =
     io_bind (io_of (stringifyText env text)) (\<lambda>text.
     io_bind (io_of (encode env text)) (\<lambda>arg.
     io_bind (call os (Popen [''qdbus'', ''org.kde.klipper'', ''/klipper'',
                              ''setClipboardContents'', arg])) (\<lambda>p.
     io_bind (call os (Communicate None)) (\<lambda>_. io_return PyNone))))"

definition paste_klipper :: "env \<Rightarrow> host \<Rightarrow> pyvalue io" where
  "paste_klipper env os =
     io_bind (call os (Popen [''qdbus'', ''org.kde.klipper'', ''/klipper'',
                              ''getClipboardContents''])) (\<lambda>p.
     io_bind (call os (Communicate None)) (\<lambda>r.
     io_bind (io_of (decode env ''strict'' (stdout r))) (\<lambda>clipboardContents.
       io_return (PyStr (if clipboardContents \<noteq> [] \<and> last clipboardContents = CHR 0x0A
                         then butlast clipboardContents else clipboardContents)))))"

definition copy_dev_clipboard :: "env \<Rightarrow> host \<Rightarrow> pyvalue \<Rightarrow> pyvalue io" where
  "copy_dev_clipboard env os text =
     io_bind (io_of (stringifyText env text)) (\<lambda>text.
     io_bind (if text = [] then
                io_bind (call os (Warn ''Pyperclip cannot copy a blank string to the clipboard on Cygwin. This is effectively a no-op.''))
                  (\<lambda>_. io_return ())
              else io_return ()) (\<lambda>_.
     io_bind (if CHR 0x0D \<in> set text then
                io_bind (call os (Warn (''Pyperclip cannot handle '' @ [CHR 0x5C] @ ''r characters on Cygwin.'')))
                  (\<lambda>_. io_return ())
              else io_return ()) (\<lambda>_.
     io_bind (call os (Open_file ''/dev/clipboard'' ''wt'')) (\<lambda>fo.
     io_bind (call os (File_write text)) (\<lambda>_.
     io_bind (call os File_close) (\<lambda>_. io_return PyNone))))))"

definition paste_dev_clipboard :: "host \<Rightarrow> pyvalue io" where
  "paste_dev_clipboard os =
     io_bind (call os (Open_file ''/dev/clipboard'' ''rt'')) (\<lambda>fo.
     io_bind (call os File_read) (\<lambda>content.
     io_bind (call os File_close) (\<lambda>_. io_return (PyStr (stdout content)))))"

definition copy_wsl :: "env \<Rightarrow> host \<Rightarrow> pyvalue \<Rightarrow> pyvalue io" where
  "copy_wsl env os text =
     io_bind (io_of (stringifyText env text)) (\<lambda>text.
     io_bind (call os (Popen [''clip.exe''])) (\<lambda>p.
     io_bind (io_of (encode env text)) (\<lambda>input.
     io_bind (call os (Communicate (Some input))) (\<lambda>_. io_return PyNone))))"

text \<open>\<^verbatim>\<open>stdout[:-2]\<close> drops the last two bytes.\<close>

definition paste_wsl :: "env \<Rightarrow> host \<Rightarrow> pyvalue io" where
  "paste_wsl env os =
     io_bind (call os (Popen [''powershell.exe'', ''-noprofile'', ''-command'',
                              ''Get-Clipboard''])) (\<lambda>p.
     io_bind (call os (Communicate None)) (\<lambda>r.
     io_bind (io_of (decode env ''strict'' (take (length (stdout r) - 2) (stdout r)))) (\<lambda>t.
       io_return (PyStr t))))"

definition EXCEPT_MSG :: string where
  "EXCEPT_MSG =
     [CHR 0x0A] @ ''    Pyperclip could not find a copy/paste mechanism for your system.''
     @ [CHR 0x0A] @ ''    For more information, please visit https://pyperclip.readthedocs.io/en/latest/index.html#not-implemented-error ''"

text \<open>\<^verbatim>\<open>ClipboardUnavailable.__call__(self, *args, **kwargs)\<close>.\<close>

definition ClipboardUnavailable_call :: "pyvalue io" where
  "ClipboardUnavailable_call = io_raise (PyperclipException EXCEPT_MSG)"

section \<open>The native Windows backend\<close>

text \<open>\<^verbatim>\<open>f.__name__\<close> of a native function.\<close>

definition fname :: "request \<Rightarrow> string" where
  "fname f =
     (case f of
        CreateWindowExA \<Rightarrow> ''CreateWindowExA''
      | DestroyWindow _ \<Rightarrow> ''DestroyWindow''
      | OpenClipboard _ \<Rightarrow> ''OpenClipboard''
      | CloseClipboard \<Rightarrow> ''CloseClipboard''
      | EmptyClipboard \<Rightarrow> ''EmptyClipboard''
      | GetClipboardData _ \<Rightarrow> ''GetClipboardData''
      | SetClipboardData _ _ \<Rightarrow> ''SetClipboardData''
      | GlobalAlloc _ _ \<Rightarrow> ''GlobalAlloc''
      | GlobalLock _ \<Rightarrow> ''GlobalLock''
      | GlobalUnlock _ \<Rightarrow> ''GlobalUnlock''
      | Wcslen _ \<Rightarrow> ''wcslen''
      | _ \<Rightarrow> [])"

text \<open>
  \<^verbatim>\<open>raise PyperclipWindowsException(message)\<close>: the constructor appends
  \<^verbatim>\<open>" (%s)" % ctypes.WinError()\<close>, the operating system's description of its last error.
\<close>

definition raise_PyperclipWindowsException :: "host \<Rightarrow> string \<Rightarrow> 'a io" where
  "raise_PyperclipWindowsException os message s =
     (let (r, s1) = perform os WinError s
      in (Inl (PyperclipWindowsException (message @ '' ('' @ stdout r @ '')'')), s1))"

definition CheckedCall :: "host \<Rightarrow> request \<Rightarrow> nat io" where
  "CheckedCall os f s =
     (let (r, s1) = perform os f s
      in if ret r = 0 \<and> errno r \<noteq> 0
         then raise_PyperclipWindowsException os (''Error calling '' @ fname f) s1
         else (Inr (ret r), s1))"

definition GMEM_MOVEABLE :: nat where
  "GMEM_MOVEABLE = 2"

definition CF_UNICODETEXT :: nat where
  "CF_UNICODETEXT = 13"

text \<open>\<^verbatim>\<open>sizeof(c_wchar)\<close> on Windows.\<close>

definition sizeof_c_wchar :: nat where
  "sizeof_c_wchar = 2"

text \<open>The context manager \<^verbatim>\<open>window()\<close> around the body of its \<^verbatim>\<open>with\<close> statement.\<close>

definition window :: "host \<Rightarrow> (nat \<Rightarrow> 'a io) \<Rightarrow> 'a io" where
  "window os body =
     io_bind (CheckedCall os CreateWindowExA) (\<lambda>hwnd.
       try_finally (body hwnd)
         (io_bind (CheckedCall os (DestroyWindow hwnd)) (\<lambda>_. io_return ())))"

text \<open>
  The loop of \<^verbatim>\<open>clipboard(hwnd)\<close>, up to the time \<open>t\<close>; the result is \<^verbatim>\<open>success\<close>.
  \<^verbatim>\<open>time.sleep(0.01)\<close> is \<open>Sleep 10000\<close>, which moves the clock by at least 10 ms.
\<close>

function OpenClipboard_loop :: "host \<Rightarrow> nat \<Rightarrow> nat \<Rightarrow> state \<Rightarrow> nat \<times> state" where
  "OpenClipboard_loop os hwnd t s =
     (if clock s < t then
        (let r = fst (perform os (OpenClipboard hwnd) s);
             s1 = snd (perform os (OpenClipboard hwnd) s)
         in if ret r \<noteq> 0 then (ret r, s1)
            else OpenClipboard_loop os hwnd t (snd (perform os (Sleep 10000) s1)))
      else (0, s))"
  by pat_completeness auto
termination
  by (relation "measure (\<lambda>(os, hwnd, t, s). t - clock s)") (auto simp: perform_def Let_def)

text \<open>The context manager \<^verbatim>\<open>clipboard(hwnd)\<close>; \<^verbatim>\<open>t = time.time() + 0.5\<close>.\<close>

definition clipboard :: "host \<Rightarrow> nat \<Rightarrow> 'a io \<Rightarrow> 'a io" where
  "clipboard os hwnd body s =
     (let t = clock s + 500000;
          (success, s1) = OpenClipboard_loop os hwnd t s
      in if success = 0
         then raise_PyperclipWindowsException os ''Error calling OpenClipboard'' s1
         else try_finally body
                (io_bind (CheckedCall os CloseClipboard) (\<lambda>_. io_return ())) s1)"

definition copy_windows :: "env \<Rightarrow> host \<Rightarrow> pyvalue \<Rightarrow> pyvalue io" where
  "copy_windows env os text =
     io_bind (io_of (stringifyText env text)) (\<lambda>text.
       window os (\<lambda>hwnd.
         clipboard os hwnd
           (io_bind (CheckedCall os EmptyClipboard) (\<lambda>_.
              if text \<noteq> [] then
                io_bind (CheckedCall os (Wcslen text)) (\<lambda>n.
                let count = n + 1 in
                io_bind (CheckedCall os (GlobalAlloc GMEM_MOVEABLE (count * sizeof_c_wchar)))
                  (\<lambda>handle.
                io_bind (CheckedCall os (GlobalLock handle)) (\<lambda>locked_handle.
                io_bind (call os (Memmove locked_handle text (count * sizeof_c_wchar))) (\<lambda>_.
                io_bind (CheckedCall os (GlobalUnlock handle)) (\<lambda>_.
                io_bind (CheckedCall os (SetClipboardData CF_UNICODETEXT handle)) (\<lambda>_.
                  io_return PyNone))))))
              else io_return PyNone))))"

text \<open>
  \<^verbatim>\<open>clipboard(None)\<close>: the handle \<^verbatim>\<open>None\<close> is 0. The \<^verbatim>\<open>value\<close> of a
  \<^verbatim>\<open>c_wchar_p\<close> is \<^verbatim>\<open>None\<close> for the null pointer and the string in memory otherwise.
\<close>

definition paste_windows :: "host \<Rightarrow> pyvalue io" where
  "paste_windows os =
     clipboard os 0
       (io_bind (CheckedCall os (GetClipboardData CF_UNICODETEXT)) (\<lambda>handle.
          if handle = 0 then io_return (PyStr [])
          else
            io_bind (CheckedCall os (GlobalLock handle)) (\<lambda>locked_handle.
            io_bind (call os (Read_wchar_p locked_handle)) (\<lambda>v.
            let return_value = (if locked_handle = 0 then PyNone else PyStr (stdout v)) in
            io_bind (CheckedCall os (GlobalUnlock handle)) (\<lambda>_.
              io_return return_value)))))"

section \<open>Initializers\<close>

text \<open>
  An initializer returns the pair of functions of its backend; the model returns the
  backend, and the pair is \<open>(backend_copy b, backend_paste b)\<close>.
\<close>

definition init_osx_pbcopy_clipboard :: "backend io" where
  "init_osx_pbcopy_clipboard = io_return OsxPbcopy"

definition init_osx_pyobjc_clipboard :: "backend io" where
  "init_osx_pyobjc_clipboard = io_return OsxPyobjc"

text \<open>
  \<^verbatim>\<open>from qtpy.QtWidgets import QApplication\<close>, on any exception
  \<^verbatim>\<open>from PyQt5.QtWidgets import QApplication\<close>; then the application object is looked up
  (answer 0: there is none) and created when missing.
\<close>

definition init_qt_clipboard :: "env \<Rightarrow> host \<Rightarrow> backend io" where
  "init_qt_clipboard env os =
     (if importable env ''qtpy.QtWidgets'' \<or> importable env ''PyQt5.QtWidgets'' then
        io_bind (call os QApplication_instance) (\<lambda>app.
        io_bind (if ret app = 0
                 then io_bind (call os QApplication_new) (\<lambda>_. io_return ())
                 else io_return ()) (\<lambda>_. io_return Qt))
      else io_raise ImportError)"

definition init_xclip_clipboard :: "backend io" where
  "init_xclip_clipboard = io_return Xclip"

definition init_xsel_clipboard :: "backend io" where
  "init_xsel_clipboard = io_return Xsel"

definition init_wl_clipboard :: "backend io" where
  "init_wl_clipboard = io_return WlClipboard"

definition init_gpaste_clipboard :: "host \<Rightarrow> backend io" where
  "init_gpaste_clipboard os = io_bind (start_client_gpaste os) (\<lambda>_. io_return Gpaste)"

definition init_klipper_clipboard :: "backend io" where
  "init_klipper_clipboard = io_return Klipper"

definition init_dev_clipboard_clipboard :: "backend io" where
  "init_dev_clipboard_clipboard = io_return DevClipboard"

definition init_no_clipboard :: "backend io" where
  "init_no_clipboard = io_return NoClipboard"

text \<open>\<^verbatim>\<open>ctypes.windll\<close> exists on Windows only; elsewhere the attribute lookup raises.\<close>

definition init_windows_clipboard :: "env \<Rightarrow> backend io" where
  "init_windows_clipboard env =
     (if has_windll env then io_return Windows else io_raise AttributeError)"

definition init_wsl_clipboard :: "backend io" where
  "init_wsl_clipboard = io_return Wsl"

section \<open>Resolution\<close>

text \<open>\<^verbatim>\<open>_executable_exists\<close> is \<^verbatim>\<open>shutil.which\<close>: a path (nonzero) or \<^verbatim>\<open>None\<close> (0).\<close>

definition executable_exists :: "host \<Rightarrow> string \<Rightarrow> bool io" where
  "executable_exists os name s =
     (let (r, s1) = perform os (Which name) s in (Inr (ret r \<noteq> 0), s1))"

text \<open>Truth of \<^verbatim>\<open>os.getenv(name)\<close>: set and not empty.\<close>

definition getenv_truthy :: "env \<Rightarrow> string \<Rightarrow> bool" where
  "getenv_truthy env name = (case getenv env name of None \<Rightarrow> False | Some v \<Rightarrow> v \<noteq> [])"

text \<open>\<^verbatim>\<open>try: body except ImportError: pass\<close>, followed by \<open>rest\<close>.\<close>

definition except_ImportError :: "'a io \<Rightarrow> 'a io \<Rightarrow> 'a io" where
  "except_ImportError body rest s =
     (case body s of (Inl e, s1) \<Rightarrow> (if e = ImportError then rest s1 else (Inl e, s1))
      | (Inr x, s1) \<Rightarrow> (Inr x, s1))"

text \<open>
  \<^verbatim>\<open>determine_clipboard\<close> is a cascade of \<^verbatim>\<open>if\<close> statements that return or fall through;
  each definition below is the function from one statement on. First the two
  \<^verbatim>\<open>try\<close> statements on \<^verbatim>\<open>qtpy\<close> and \<^verbatim>\<open>PyQt5\<close> and the final \<^verbatim>\<open>return\<close>.
\<close>

definition determine_toolkit :: "env \<Rightarrow> host \<Rightarrow> backend io" where
  "determine_toolkit env os =
     except_ImportError
       (if importable env ''qtpy'' then init_qt_clipboard env os else io_raise ImportError)
       (except_ImportError
          (if importable env ''PyQt5'' then init_qt_clipboard env os else io_raise ImportError)
          init_no_clipboard)"

text \<open>From \<^verbatim>\<open>if os.getenv("DISPLAY")\<close> on.\<close>

definition determine_x11 :: "env \<Rightarrow> host \<Rightarrow> backend io" where
  "determine_x11 env os =
     (if getenv_truthy env ''DISPLAY'' then
        io_bind (executable_exists os ''xsel'') (\<lambda>xsel.
          if xsel then init_xsel_clipboard
          else io_bind (executable_exists os ''xclip'') (\<lambda>xclip.
            if xclip then init_xclip_clipboard else determine_toolkit env os))
      else determine_toolkit env os)"

text \<open>From \<^verbatim>\<open>if (os.environ.get("WAYLAND_DISPLAY") and _executable_exists("wl-copy"))\<close> on.\<close>

definition determine_wayland :: "env \<Rightarrow> host \<Rightarrow> backend io" where
  "determine_wayland env os =
     (if getenv_truthy env ''WAYLAND_DISPLAY'' then
        io_bind (executable_exists os ''wl-copy'') (\<lambda>wl.
          if wl then init_wl_clipboard else determine_x11 env os)
      else determine_x11 env os)"

text \<open>The KDE test, inside \<^verbatim>\<open>if xdg_current_desktop is not None\<close>.\<close>

definition determine_kde :: "env \<Rightarrow> host \<Rightarrow> string \<Rightarrow> backend io" where
  "determine_kde env os xdg_current_desktop =
     (if contains ''kde'' (lower xdg_current_desktop) then
        io_bind (executable_exists os ''klipper'') (\<lambda>klipper.
          if klipper then
            io_bind (executable_exists os ''qdbus'') (\<lambda>qdbus.
              if qdbus then init_klipper_clipboard else determine_wayland env os)
          else determine_wayland env os)
      else determine_wayland env os)"

text \<open>From \<^verbatim>\<open>xdg_current_desktop = os.getenv('XDG_CURRENT_DESKTOP')\<close> on.\<close>

definition determine_desktop :: "env \<Rightarrow> host \<Rightarrow> backend io" where
  "determine_desktop env os =
     (case getenv env ''XDG_CURRENT_DESKTOP'' of
        None \<Rightarrow> determine_wayland env os
      | Some xdg_current_desktop \<Rightarrow>
          if contains ''gnome'' (lower xdg_current_desktop) then
            io_bind (executable_exists os ''gpaste-client'') (\<lambda>gpaste.
              if gpaste then init_gpaste_clipboard os
              else determine_kde env os xdg_current_desktop)
          else determine_kde env os xdg_current_desktop)"

text \<open>From \<^verbatim>\<open>if os.name == 'mac' or platform.system() == 'Darwin'\<close> on.\<close>

definition determine_mac :: "env \<Rightarrow> host \<Rightarrow> backend io" where
  "determine_mac env os =
     (if os_name env = ''mac'' \<or> platform_system env = ''Darwin'' then
        (if importable env ''Foundation'' \<and> importable env ''AppKit''
         then init_osx_pyobjc_clipboard else init_osx_pbcopy_clipboard)
      else determine_desktop env os)"

text \<open>From \<^verbatim>\<open>if platform.system() == 'Linux' and os.path.isfile('/proc/version')\<close> on.\<close>

definition determine_wsl :: "env \<Rightarrow> host \<Rightarrow> backend io" where
  "determine_wsl env os =
     (if platform_system env = ''Linux'' \<and> isfile_proc_version env
         \<and> contains ''microsoft'' (lower (proc_version env))
      then init_wsl_clipboard else determine_mac env os)"

definition determine_clipboard :: "env \<Rightarrow> host \<Rightarrow> backend io" where
  "determine_clipboard env os =
     (if contains ''cygwin'' (lower (platform_system env)) then
        (if exists_dev_clipboard env then init_dev_clipboard_clipboard
         else determine_wsl env os)
      else if os_name env = ''nt'' \<or> platform_system env = ''Windows'' then
        init_windows_clipboard env
      else determine_wsl env os)"

section \<open>The entry points\<close>

text \<open>
  A call of a backend's function with the text and, when the caller passes it, the keyword
  argument \<^verbatim>\<open>primary\<close>. Python raises \<^verbatim>\<open>TypeError\<close> for a keyword the function's
  signature does not have, before the body runs.
\<close>

definition call_backend_copy ::
    "env \<Rightarrow> host \<Rightarrow> backend \<Rightarrow> pyvalue \<Rightarrow> bool option \<Rightarrow> pyvalue io" where
  "call_backend_copy env os b text primary =
     (case b of
        Xclip \<Rightarrow> copy_xclip env os text (case primary of None \<Rightarrow> False | Some p \<Rightarrow> p)
      | Xsel \<Rightarrow> copy_xsel env os text (case primary of None \<Rightarrow> False | Some p \<Rightarrow> p)
      | WlClipboard \<Rightarrow> copy_wl env os text (case primary of None \<Rightarrow> False | Some p \<Rightarrow> p)
      | NoClipboard \<Rightarrow> ClipboardUnavailable_call
      | _ \<Rightarrow>
         (case primary of
            Some _ \<Rightarrow> io_raise TypeError
          | None \<Rightarrow>
             (case b of
                Gpaste \<Rightarrow> copy_gpaste env os text
              | OsxPbcopy \<Rightarrow> copy_osx_pbcopy env os text
              | OsxPyobjc \<Rightarrow> copy_osx_pyobjc env os text
              | Qt \<Rightarrow> copy_qt env os text
              | Klipper \<Rightarrow> copy_klipper env os text
              | Windows \<Rightarrow> copy_windows env os text
              | Wsl \<Rightarrow> copy_wsl env os text
              | _ \<Rightarrow> copy_dev_clipboard env os text)))"

definition call_backend_paste :: "env \<Rightarrow> host \<Rightarrow> backend \<Rightarrow> bool option \<Rightarrow> pyvalue io" where
  "call_backend_paste env os b primary =
     (case b of
        Xclip \<Rightarrow> paste_xclip env os (case primary of None \<Rightarrow> False | Some p \<Rightarrow> p)
      | Xsel \<Rightarrow> paste_xsel env os (case primary of None \<Rightarrow> False | Some p \<Rightarrow> p)
      | WlClipboard \<Rightarrow> paste_wl env os (case primary of None \<Rightarrow> False | Some p \<Rightarrow> p)
      | NoClipboard \<Rightarrow> ClipboardUnavailable_call
      | _ \<Rightarrow>
         (case primary of
            Some _ \<Rightarrow> io_raise TypeError
          | None \<Rightarrow>
             (case b of
                Gpaste \<Rightarrow> paste_gpaste os
              | OsxPbcopy \<Rightarrow> paste_osx_pbcopy env os ''strict''
              | OsxPyobjc \<Rightarrow> paste_osx_pyobjc os
              | Qt \<Rightarrow> paste_qt os
              | Klipper \<Rightarrow> paste_klipper env os
              | Windows \<Rightarrow> paste_windows os
              | Wsl \<Rightarrow> paste_wsl env os
              | _ \<Rightarrow> paste_dev_clipboard os)))"

text \<open>\<^verbatim>\<open>copy, paste = ...\<close> binds both globals.\<close>

definition rebind :: "backend \<Rightarrow> state \<Rightarrow> state" where
  "rebind b s = s\<lparr>g_copy := backend_copy b, g_paste := backend_paste b\<rparr>"

definition lazy_load_stub_copy_call :: "env \<Rightarrow> host \<Rightarrow> pyvalue \<Rightarrow> pyvalue io" where
  "lazy_load_stub_copy_call env os text s =
     (case determine_clipboard env os s of
        (Inl e, s1) \<Rightarrow> (Inl e, s1)
      | (Inr b, s1) \<Rightarrow> call_backend_copy env os b text None (rebind b s1))"

definition lazy_load_stub_paste_call :: "env \<Rightarrow> host \<Rightarrow> pyvalue io" where
  "lazy_load_stub_paste_call env os s =
     (case determine_clipboard env os s of
        (Inl e, s1) \<Rightarrow> (Inl e, s1)
      | (Inr b, s1) \<Rightarrow> call_backend_paste env os b None (rebind b s1))"

text \<open>A call of the module's global \<^verbatim>\<open>copy\<close>, and of \<^verbatim>\<open>paste\<close>.\<close>

definition copy :: "env \<Rightarrow> host \<Rightarrow> pyvalue \<Rightarrow> bool option \<Rightarrow> pyvalue io" where
  "copy env os text primary s =
     (case g_copy s of
        lazy_load_stub_copy \<Rightarrow>
          (case primary of Some _ \<Rightarrow> (Inl TypeError, s)
           | None \<Rightarrow> lazy_load_stub_copy_call env os text s)
      | backend_copy b \<Rightarrow> call_backend_copy env os b text primary s)"

definition paste :: "env \<Rightarrow> host \<Rightarrow> bool option \<Rightarrow> pyvalue io" where
  "paste env os primary s =
     (case g_paste s of
        lazy_load_stub_paste \<Rightarrow>
          (case primary of Some _ \<Rightarrow> (Inl TypeError, s)
           | None \<Rightarrow> lazy_load_stub_paste_call env os s)
      | backend_paste b \<Rightarrow> call_backend_paste env os b primary s)"

definition is_available :: "state \<Rightarrow> bool" where
  "is_available s = (g_copy s \<noteq> lazy_load_stub_copy \<and> g_paste s \<noteq> lazy_load_stub_paste)"

text \<open>The module starts with both globals bound to the stubs.\<close>

definition initial_state :: state where
  "initial_state = \<lparr>clock = 0, trace = [], g_copy = lazy_load_stub_copy,
                    g_paste = lazy_load_stub_paste\<rparr>"

subsection \<open>\<^verbatim>\<open>set_clipboard\<close>\<close>





section \<open>Blocking poll utilities\<close>

text \<open>
  The \<^verbatim>\<open>timeout\<close> argument is a number of seconds: the model keeps its value in
  microseconds and its \<^verbatim>\<open>str\<close>, which the message of the exception shows.
\<close>

record timeout =
  micros :: nat
  shown :: string

text \<open>
  The \<^verbatim>\<open>while True\<close> loops can run forever: \<open>None\<close> is a call that does not return.
\<close>

partial_function (option) waitForPaste_loop ::
    "env \<Rightarrow> host \<Rightarrow> timeout option \<Rightarrow> nat \<Rightarrow> state \<Rightarrow> ((error + pyvalue) \<times> state) option" where
  "waitForPaste_loop env os tmo startTime s =
     (case paste env os None s of
        (Inl e, s1) \<Rightarrow> Some (Inl e, s1)
      | (Inr clipboardText, s1) \<Rightarrow>
          if clipboardText \<noteq> PyStr [] then Some (Inr clipboardText, s1)
          else
            (let s2 = snd (perform os (Sleep 10000) s1)
             in case tmo of
                  None \<Rightarrow> waitForPaste_loop env os tmo startTime s2
                | Some t \<Rightarrow>
                    if clock s2 > startTime + micros t then
                      Some (Inl (PyperclipTimeoutException
                        (''waitForPaste() timed out after '' @ shown t @ '' seconds.'')), s2)
                    else waitForPaste_loop env os tmo startTime s2))"

definition waitForPaste ::
    "env \<Rightarrow> host \<Rightarrow> timeout option \<Rightarrow> state \<Rightarrow> ((error + pyvalue) \<times> state) option" where
  "waitForPaste env os tmo s = waitForPaste_loop env os tmo (clock s) s"

partial_function (option) waitForNewPaste_loop ::
    "env \<Rightarrow> host \<Rightarrow> timeout option \<Rightarrow> nat \<Rightarrow> pyvalue \<Rightarrow> state
       \<Rightarrow> ((error + pyvalue) \<times> state) option" where
  "waitForNewPaste_loop env os tmo startTime originalText s =
     (case paste env os None s of
        (Inl e, s1) \<Rightarrow> Some (Inl e, s1)
      | (Inr currentText, s1) \<Rightarrow>
          if currentText \<noteq> originalText then Some (Inr currentText, s1)
          else
            (let s2 = snd (perform os (Sleep 10000) s1)
             in case tmo of
                  None \<Rightarrow> waitForNewPaste_loop env os tmo startTime originalText s2
                | Some t \<Rightarrow>
                    if clock s2 > startTime + micros t then
                      Some (Inl (PyperclipTimeoutException
                        (''waitForNewPaste() timed out after '' @ shown t @ '' seconds.'')), s2)
                    else waitForNewPaste_loop env os tmo startTime originalText s2))"

definition waitForNewPaste ::
    "env \<Rightarrow> host \<Rightarrow> timeout option \<Rightarrow> state \<Rightarrow> ((error + pyvalue) \<times> state) option" where
  "waitForNewPaste env os tmo s =
     (let startTime = clock s in
      case paste env os None s of
        (Inl e, s1) \<Rightarrow> Some (Inl e, s1)
      | (Inr originalText, s1) \<Rightarrow> waitForNewPaste_loop env os tmo startTime originalText s1)"

section \<open>Sample hosts and environments\<close>

text \<open>
  A Linux host with nothing installed: no session variables, no importable toolkit.
\<close>

definition bare_env :: env where
  "bare_env = \<lparr>platform_system = ''Linux'', os_name = ''posix'', exists_dev_clipboard = False,
     isfile_proc_version = False, proc_version = [], importable = (\<lambda>_. False),
     getenv = (\<lambda>_. None), has_windll = False, str_float = (\<lambda>_. []),
     encode = Inr, decode = (\<lambda>_. Inr)\<rparr>"

text \<open>A host that answers every request with zero, no text and no exception.\<close>

definition silent_host :: host where
  "silent_host c t rq = \<lparr>ret = 0, errno = 0, out = None, exc = None, elapsed = 0\<rparr>"

text \<open>
  A Linux desktop under a GNOME session, with both a Wayland and an X11 display, where
  \<^verbatim>\<open>wl-copy\<close>, \<^verbatim>\<open>xsel\<close> and \<^verbatim>\<open>xclip\<close> are installed and \<^verbatim>\<open>gpaste-client\<close> is not.
\<close>

definition desktop_env :: env where
  "desktop_env = bare_env\<lparr>getenv :=
     map_of [(''XDG_CURRENT_DESKTOP'', ''ubuntu:GNOME''), (''WAYLAND_DISPLAY'', ''wayland-0''),
             (''DISPLAY'', '':0'')]\<rparr>"

definition found :: response where
  "found = \<lparr>ret = 1, errno = 0, out = None, exc = None, elapsed = 0\<rparr>"

definition nothing :: response where
  "nothing = \<lparr>ret = 0, errno = 0, out = None, exc = None, elapsed = 0\<rparr>"

definition desktop_host :: host where
  "desktop_host c t rq =
     (if rq \<in> {Which ''wl-copy'', Which ''xsel'', Which ''xclip''} then found else nothing)"

section \<open>The resolution procedure as the specification words it\<close>

text \<open>
  A prioritised list of branches, each a test and an initializer: the tests run in order,
  the first one that holds selects its initializer, and no later test runs.
\<close>

fun first_match :: "(bool io \<times> 'a io) list \<Rightarrow> 'a io \<Rightarrow> 'a io" where
  "first_match [] otherwise = otherwise"
| "first_match ((test, init) # branches) otherwise =
     io_bind test (\<lambda>matched. if matched then init else first_match branches otherwise)"

text \<open>A conjunction of tests, left to right, stopping at the first that fails.\<close>

fun all_of :: "bool io list \<Rightarrow> bool io" where
  "all_of [] = io_return True"
| "all_of (t # ts) = io_bind t (\<lambda>holds. if holds then all_of ts else io_return False)"

text \<open>
  The toolkit binding loads: \<^verbatim>\<open>qtpy\<close> or \<^verbatim>\<open>PyQt5\<close> can be imported, and so can the
  widgets module of one of them.
\<close>

definition toolkit_loads :: "env \<Rightarrow> bool" where
  "toolkit_loads env =
     ((importable env ''qtpy'' \<or> importable env ''PyQt5'')
      \<and> (importable env ''qtpy.QtWidgets'' \<or> importable env ''PyQt5.QtWidgets''))"

definition session_is :: "env \<Rightarrow> string \<Rightarrow> bool io" where
  "session_is env name =
     io_return (case getenv env ''XDG_CURRENT_DESKTOP'' of None \<Rightarrow> False
                | Some desktop \<Rightarrow> contains name (lower desktop))"

definition display_present :: "env \<Rightarrow> string \<Rightarrow> bool io" where
  "display_present env var = io_return (getenv_truthy env var)"

definition linux_branches :: "env \<Rightarrow> host \<Rightarrow> (bool io \<times> backend io) list" where
  "linux_branches env os =
     [(all_of [session_is env ''gnome'', executable_exists os ''gpaste-client''],
         init_gpaste_clipboard os),
      (all_of [session_is env ''kde'', executable_exists os ''klipper'',
               executable_exists os ''qdbus''],
         init_klipper_clipboard),
      (all_of [display_present env ''WAYLAND_DISPLAY'', executable_exists os ''wl-copy''],
         init_wl_clipboard),
      (all_of [display_present env ''DISPLAY'', executable_exists os ''xsel''],
         init_xsel_clipboard),
      (all_of [display_present env ''DISPLAY'', executable_exists os ''xclip''],
         init_xclip_clipboard),
      (io_return (toolkit_loads env), init_qt_clipboard env os)]"

text \<open>Looking up or creating the Qt application object does not raise \<^verbatim>\<open>ImportError\<close>.\<close>

definition qt_starts :: "host \<Rightarrow> bool" where
  "qt_starts os =
     (\<forall>c t. exc (os c t QApplication_instance) \<noteq> Some ImportError
            \<and> exc (os c t QApplication_new) \<noteq> Some ImportError)"

text \<open>
  The branches on the identity of the platform, which come before the generic ones:
  Cygwin with \<^verbatim>\<open>/dev/clipboard\<close>; Windows, which the source tests in the \<^verbatim>\<open>elif\<close> of
  the Cygwin test; WSL; macOS with pyobjc; macOS without.
\<close>

definition platform_branches :: "env \<Rightarrow> (bool io \<times> backend io) list" where
  "platform_branches env =
     [(io_return (contains ''cygwin'' (lower (platform_system env))
                  \<and> exists_dev_clipboard env),
         init_dev_clipboard_clipboard),
      (io_return (\<not> contains ''cygwin'' (lower (platform_system env))
                  \<and> (os_name env = ''nt'' \<or> platform_system env = ''Windows'')),
         init_windows_clipboard env),
      (io_return (platform_system env = ''Linux'' \<and> isfile_proc_version env
                  \<and> contains ''microsoft'' (lower (proc_version env))),
         init_wsl_clipboard),
      (io_return ((os_name env = ''mac'' \<or> platform_system env = ''Darwin'')
                  \<and> importable env ''Foundation'' \<and> importable env ''AppKit''),
         init_osx_pyobjc_clipboard),
      (io_return (os_name env = ''mac'' \<or> platform_system env = ''Darwin''),
         init_osx_pbcopy_clipboard)]"

text \<open>
  None of the platform branches (Cygwin with \<^verbatim>\<open>/dev/clipboard\<close>, Windows, WSL, macOS)
  returns: resolution reaches the generic part.
\<close>

definition generic_posix :: "env \<Rightarrow> bool" where
  "generic_posix env =
     ((if contains ''cygwin'' (lower (platform_system env)) then \<not> exists_dev_clipboard env
       else os_name env \<noteq> ''nt'' \<and> platform_system env \<noteq> ''Windows'')
      \<and> \<not> (platform_system env = ''Linux'' \<and> isfile_proc_version env
             \<and> contains ''microsoft'' (lower (proc_version env)))
      \<and> os_name env \<noteq> ''mac'' \<and> platform_system env \<noteq> ''Darwin'')"

section \<open>Sequences of calls of the entry points\<close>

datatype invocation = Copy pyvalue "bool option" | Paste "bool option"

definition invoke :: "env \<Rightarrow> host \<Rightarrow> invocation \<Rightarrow> pyvalue io" where
  "invoke env os i = (case i of Copy text primary \<Rightarrow> copy env os text primary
                      | Paste primary \<Rightarrow> paste env os primary)"

text \<open>The calls in order; the results of all of them and the state after the last.\<close>

fun invoke_all ::
    "env \<Rightarrow> host \<Rightarrow> invocation list \<Rightarrow> state \<Rightarrow> (error + pyvalue) list \<times> state" where
  "invoke_all env os [] s = ([], s)"
| "invoke_all env os (i # is) s =
     (let (r, s1) = invoke env os i s; (rs, s2) = invoke_all env os is s1 in (r # rs, s2))"

text \<open>The names \<^verbatim>\<open>set_clipboard\<close> knows, in the order of its table, with their backends.\<close>

definition backend_names :: "(string \<times> backend) list" where
  "backend_names =
     [(''gpaste'', Gpaste), (''pbcopy'', OsxPbcopy), (''pyobjc'', OsxPyobjc), (''qt'', Qt),
      (''xclip'', Xclip), (''xsel'', Xsel), (''wl-clipboard'', WlClipboard),
      (''klipper'', Klipper), (''windows'', Windows), (''wsl'', Wsl),
      (''dev_clipboard'', DevClipboard), (''no'', NoClipboard)]"

section \<open>Properties of actions used in the proofs\<close>

text \<open>
  An action that leaves the two globals as they are and does not turn the clock back.
\<close>

definition orderly :: "'a io \<Rightarrow> bool" where
  "orderly m =
     (\<forall>s. g_copy (snd (m s)) = g_copy s \<and> g_paste (snd (m s)) = g_paste s
          \<and> clock s \<le> clock (snd (m s)))"

text \<open>An action that, when it returns, returns \<open>x\<close>.\<close>

definition returns_only :: "'a io \<Rightarrow> 'a \<Rightarrow> bool" where
  "returns_only m x = (\<forall>s y. fst (m s) = Inr y \<longrightarrow> y = x)"

section \<open>Sample Windows hosts\<close>





section \<open>Sample hosts for polling\<close>




section \<open>Native resources, read off the trace\<close>

text \<open>
  What a sequence of events leaves held: the window handles created and not passed to
  \<^verbatim>\<open>DestroyWindow\<close> since, and whether the clipboard is open, that is whether an
  \<^verbatim>\<open>OpenClipboard\<close> has succeeded with no \<^verbatim>\<open>CloseClipboard\<close> after it. A release counts
  when the function is called.
\<close>

fun track :: "event \<Rightarrow> nat list \<times> bool \<Rightarrow> nat list \<times> bool" where
  "track (CreateWindowExA, r) (ws, opened) = (if ret r \<noteq> 0 then ret r # ws else ws, opened)"
| "track (DestroyWindow hwnd, r) (ws, opened) = (removeAll hwnd ws, opened)"
| "track (OpenClipboard hwnd, r) (ws, opened) = (ws, opened \<or> ret r \<noteq> 0)"
| "track (CloseClipboard, r) (ws, opened) = (ws, False)"
| "track _ h = h"


text \<open>The events an action adds to the trace.\<close>

definition events_of :: "'a io \<Rightarrow> state \<Rightarrow> event list" where
  "events_of m s = drop (length (trace s)) (trace (snd (m s)))"


text \<open>The number of attempts to open the clipboard among the events.\<close>

definition attempts :: "event list \<Rightarrow> nat" where
  "attempts evs =
     length (filter (\<lambda>ev. case fst ev of OpenClipboard _ \<Rightarrow> True | _ \<Rightarrow> False) evs)"



text \<open>
  An action whose events leave what is held as it was, and one whose events leave the
  clipboard closed when it was closed before.
\<close>

definition neutral :: "'a io \<Rightarrow> bool" where
  "neutral m = (\<forall>s. \<exists>evs. trace (snd (m s)) = trace s @ evs \<and> (\<forall>h. fold track evs h = h))"

definition closing :: "'a io \<Rightarrow> bool" where
  "closing m =
     (\<forall>s. \<exists>evs. trace (snd (m s)) = trace s @ evs
          \<and> (\<forall>ws. fold track evs (ws, False) = (ws, False)))"


section \<open>Reading an empty clipboard\<close>



text \<open>An action whose returned values all satisfy \<open>P\<close>.\<close>

definition returns :: "'a io \<Rightarrow> ('a \<Rightarrow> bool) \<Rightarrow> bool" where
  "returns m P = (\<forall>s y. fst (m s) = Inr y \<longrightarrow> P y)"



section \<open>Basic facts about the monad\<close>

lemma io_bind_return [simp]: "io_bind (io_return x) f = f x"
  by (rule ext) (simp add: io_bind_def io_return_def)

lemma io_bind_raise [simp]: "io_bind (io_raise e) f = io_raise e"
  by (rule ext) (simp add: io_bind_def io_raise_def)

lemma io_bind_assoc: "io_bind (io_bind m f) g = io_bind m (\<lambda>x. io_bind (f x) g)"
  by (rule ext) (simp add: io_bind_def split: prod.splits sum.splits)

lemma io_bind_if: "io_bind (if c then m else n) f = (if c then io_bind m f else io_bind n f)"
  by simp

lemma io_bind_executable_exists:
  "io_bind (executable_exists os n) f s =
     f (ret (os (clock s) (trace s) (Which n)) \<noteq> 0) (snd (perform os (Which n) s))"
  by (simp add: io_bind_def executable_exists_def perform_def Let_def)

lemma except_ImportError_raise [simp]:
  "except_ImportError (io_raise ImportError) rest = rest"
  by (rule ext) (simp add: except_ImportError_def io_raise_def)

section \<open>Resolution without any mechanism\<close>

lemma determine_toolkit_none:
  "\<not> importable env ''qtpy'' \<Longrightarrow> \<not> importable env ''PyQt5'' \<Longrightarrow>
   determine_toolkit env os s = (Inr NoClipboard, s)"
  by (simp add: determine_toolkit_def init_no_clipboard_def io_return_def)

lemma determine_x11_none:
  assumes "\<forall>c t n. ret (os c t (Which n)) = 0"
    and "\<not> importable env ''qtpy''" and "\<not> importable env ''PyQt5''"
  shows "fst (determine_x11 env os s) = Inr NoClipboard"
  using assms
  by (simp add: determine_x11_def io_bind_executable_exists determine_toolkit_none)

lemma determine_wayland_none:
  assumes "\<forall>c t n. ret (os c t (Which n)) = 0"
    and "\<not> importable env ''qtpy''" and "\<not> importable env ''PyQt5''"
  shows "fst (determine_wayland env os s) = Inr NoClipboard"
  using assms
  by (simp add: determine_wayland_def io_bind_executable_exists determine_x11_none)

lemma determine_kde_none:
  assumes "\<forall>c t n. ret (os c t (Which n)) = 0"
    and "\<not> importable env ''qtpy''" and "\<not> importable env ''PyQt5''"
  shows "fst (determine_kde env os xdg s) = Inr NoClipboard"
  using assms
  by (simp add: determine_kde_def io_bind_executable_exists determine_wayland_none)

lemma determine_desktop_none:
  assumes "\<forall>c t n. ret (os c t (Which n)) = 0"
    and "\<not> importable env ''qtpy''" and "\<not> importable env ''PyQt5''"
  shows "fst (determine_desktop env os s) = Inr NoClipboard"
  using assms
  by (simp add: determine_desktop_def io_bind_executable_exists determine_kde_none
      determine_wayland_none split: option.splits)

text \<open>
  Claim C7. On a host that is none of Cygwin, Windows, WSL and macOS, where no helper
  executable is on the search path and neither \<^verbatim>\<open>qtpy\<close> nor \<^verbatim>\<open>PyQt5\<close> can be imported,
  \<^verbatim>\<open>determine_clipboard\<close> returns the pair of the unavailable sentinel, whatever the
  session and display variables are; and every call of either function of that pair, in
  any environment, on any host, with any arguments and in any state, raises
  \<^verbatim>\<open>PyperclipException(EXCEPT_MSG)\<close> and does nothing else.
\<close>

theorem determine_clipboard_unavailable:
  assumes "\<not> contains ''cygwin'' (lower (platform_system env))"
    and "os_name env \<noteq> ''nt''" and "platform_system env \<noteq> ''Windows''"
    and "\<not> (platform_system env = ''Linux'' \<and> isfile_proc_version env
            \<and> contains ''microsoft'' (lower (proc_version env)))"
    and "os_name env \<noteq> ''mac''" and "platform_system env \<noteq> ''Darwin''"
    and "\<forall>c t n. ret (os c t (Which n)) = 0"
    and "\<not> importable env ''qtpy''" and "\<not> importable env ''PyQt5''"
  shows "fst (determine_clipboard env os s) = Inr NoClipboard
       \<and> (\<forall>env' os' text primary s'.
             call_backend_copy env' os' NoClipboard text primary s'
               = (Inl (PyperclipException EXCEPT_MSG), s'))
       \<and> (\<forall>env' os' primary s'.
             call_backend_paste env' os' NoClipboard primary s'
               = (Inl (PyperclipException EXCEPT_MSG), s'))"
proof -
  have "fst (determine_clipboard env os s) = Inr NoClipboard"
    using assms
    by (auto simp: determine_clipboard_def determine_wsl_def determine_mac_def
        determine_desktop_none)
  moreover have "call_backend_copy env' os' NoClipboard v primary s'
      = (Inl (PyperclipException EXCEPT_MSG), s')" for env' os' v primary s'
    by (simp add: call_backend_copy_def ClipboardUnavailable_call_def io_raise_def)
  moreover have "call_backend_paste env' os' NoClipboard primary s'
      = (Inl (PyperclipException EXCEPT_MSG), s')" for env' os' primary s'
    by (simp add: call_backend_paste_def ClipboardUnavailable_call_def io_raise_def)
  ultimately show ?thesis by blast
qed

theorem determine_clipboard_unavailable_witness:
  "fst (determine_clipboard bare_env silent_host initial_state) = Inr NoClipboard
   \<and> call_backend_copy bare_env silent_host NoClipboard (PyStr ''x'') None initial_state
       = (Inl (PyperclipException EXCEPT_MSG), initial_state)"
  using determine_clipboard_unavailable [of bare_env silent_host initial_state]
  by (simp add: bare_env_def silent_host_def lower_def lower_char_def uppercase_def
      lowercase_def)

section \<open>Resolution is an ordered first-match procedure\<close>

lemma init_qt_clipboard_no_ImportError:
  assumes "qt_starts os"
    and "importable env ''qtpy.QtWidgets'' \<or> importable env ''PyQt5.QtWidgets''"
  shows "fst (init_qt_clipboard env os s) \<noteq> Inl ImportError"
  using assms
  by (auto simp: qt_starts_def init_qt_clipboard_def io_bind_def call_def perform_def Let_def
      io_return_def split: option.splits)

lemma except_ImportError_other:
  "fst (body s) \<noteq> Inl ImportError \<Longrightarrow> except_ImportError body rest s = body s"
  by (auto simp: except_ImportError_def split: prod.splits sum.splits)

lemma init_qt_clipboard_ImportError:
  "\<not> importable env ''qtpy.QtWidgets'' \<Longrightarrow> \<not> importable env ''PyQt5.QtWidgets'' \<Longrightarrow>
   init_qt_clipboard env os = io_raise ImportError"
  by (simp add: init_qt_clipboard_def)

lemma determine_toolkit_first_match:
  assumes "qt_starts os"
  shows "determine_toolkit env os =
           first_match [(io_return (toolkit_loads env), init_qt_clipboard env os)]
             init_no_clipboard"
proof (rule ext)
  fix s
  show "determine_toolkit env os s =
          first_match [(io_return (toolkit_loads env), init_qt_clipboard env os)]
            init_no_clipboard s"
  proof (cases "importable env ''qtpy.QtWidgets'' \<or> importable env ''PyQt5.QtWidgets''")
    case True
    then have "except_ImportError (init_qt_clipboard env os) rest s = init_qt_clipboard env os s"
      for rest
      using init_qt_clipboard_no_ImportError [OF assms] by (simp add: except_ImportError_other)
    with True show ?thesis
      by (simp add: determine_toolkit_def toolkit_loads_def)
  next
    case False
    then show ?thesis
      by (simp add: determine_toolkit_def toolkit_loads_def init_qt_clipboard_ImportError)
  qed
qed

lemma determine_x11_first_match:
  assumes "qt_starts os"
  shows "determine_x11 env os = first_match (drop 3 (linux_branches env os)) init_no_clipboard"
  unfolding determine_x11_def determine_toolkit_first_match [OF assms]
  by (simp add: linux_branches_def display_present_def io_bind_assoc
      io_bind_if init_xsel_clipboard_def init_xclip_clipboard_def cong: if_cong)

lemma determine_wayland_first_match:
  assumes "qt_starts os"
  shows "determine_wayland env os =
     first_match (drop 2 (linux_branches env os)) init_no_clipboard"
  unfolding determine_wayland_def determine_x11_first_match [OF assms]
  by (simp add: linux_branches_def display_present_def io_bind_assoc io_bind_if
      cong: if_cong)

lemma determine_desktop_first_match:
  assumes "qt_starts os"
  shows "determine_desktop env os = first_match (linux_branches env os) init_no_clipboard"
  unfolding determine_desktop_def determine_kde_def determine_wayland_first_match [OF assms]
  by (simp add: linux_branches_def display_present_def session_is_def io_bind_assoc io_bind_if
      split: option.splits cong: if_cong)

lemma first_match_return:
  "first_match ((io_return c, init) # branches) otherwise =
     (if c then init else first_match branches otherwise)"
  by (cases c) (simp_all add: io_bind_def io_return_def fun_eq_iff)

lemma first_match_platform:
  "first_match (platform_branches env @ branches) otherwise =
      (if contains ''cygwin'' (lower (platform_system env)) \<and> exists_dev_clipboard env
       then init_dev_clipboard_clipboard
       else if \<not> contains ''cygwin'' (lower (platform_system env))
               \<and> (os_name env = ''nt'' \<or> platform_system env = ''Windows'')
       then init_windows_clipboard env
       else if platform_system env = ''Linux'' \<and> isfile_proc_version env
               \<and> contains ''microsoft'' (lower (proc_version env))
       then init_wsl_clipboard
       else if (os_name env = ''mac'' \<or> platform_system env = ''Darwin'')
               \<and> importable env ''Foundation'' \<and> importable env ''AppKit''
       then init_osx_pyobjc_clipboard
       else if os_name env = ''mac'' \<or> platform_system env = ''Darwin''
       then init_osx_pbcopy_clipboard
       else first_match branches otherwise)"
  unfolding platform_branches_def append.simps first_match_return ..

lemma determine_clipboard_chain:
  "determine_clipboard env os =
      (if contains ''cygwin'' (lower (platform_system env)) \<and> exists_dev_clipboard env
       then init_dev_clipboard_clipboard
       else if \<not> contains ''cygwin'' (lower (platform_system env))
               \<and> (os_name env = ''nt'' \<or> platform_system env = ''Windows'')
       then init_windows_clipboard env
       else if platform_system env = ''Linux'' \<and> isfile_proc_version env
               \<and> contains ''microsoft'' (lower (proc_version env))
       then init_wsl_clipboard
       else if (os_name env = ''mac'' \<or> platform_system env = ''Darwin'')
               \<and> importable env ''Foundation'' \<and> importable env ''AppKit''
       then init_osx_pyobjc_clipboard
       else if os_name env = ''mac'' \<or> platform_system env = ''Darwin''
       then init_osx_pbcopy_clipboard
       else determine_desktop env os)"
  unfolding determine_clipboard_def determine_wsl_def determine_mac_def
  by (cases "contains ''cygwin'' (lower (platform_system env))";
      cases "exists_dev_clipboard env";
      cases "os_name env = ''nt'' \<or> platform_system env = ''Windows''";
      cases "platform_system env = ''Linux'' \<and> isfile_proc_version env
             \<and> contains ''microsoft'' (lower (proc_version env))";
      cases "os_name env = ''mac'' \<or> platform_system env = ''Darwin''";
      cases "importable env ''Foundation'' \<and> importable env ''AppKit''")
    (simp_all only: if_True if_False simp_thms)

lemma determine_clipboard_platform:
  assumes "qt_starts os"
  shows "determine_clipboard env os =
           first_match (platform_branches env @ linux_branches env os) init_no_clipboard"
  unfolding first_match_platform determine_clipboard_chain
    determine_desktop_first_match [OF assms] ..

text \<open>
  Claim C1. Provided that starting Qt does not raise \<^verbatim>\<open>ImportError\<close>,
  \<^verbatim>\<open>determine_clipboard\<close> is the first-match evaluation of one ordered list of branches:
  the platform branches, then a GNOME session with \<^verbatim>\<open>gpaste-client\<close> on the search
  path, a KDE session with \<^verbatim>\<open>klipper\<close> and \<^verbatim>\<open>qdbus\<close>, a Wayland display with
  \<^verbatim>\<open>wl-copy\<close>, an X11 display with \<^verbatim>\<open>xsel\<close>, an X11 display with \<^verbatim>\<open>xclip\<close>, then
  the toolkit binding, and the unavailable sentinel when none matches. Where no platform
  branch matches (generic desktop Linux) it is the first-match evaluation of the generic
  branches alone. The two sides are equal as actions on the state: they make the same
  probes of the search path in the same order, and none after the branch that matches.
\<close>

theorem determine_clipboard_ordered:
  assumes "qt_starts os"
  shows "determine_clipboard env os =
           first_match (platform_branches env @ linux_branches env os) init_no_clipboard
       \<and> (generic_posix env \<longrightarrow>
            determine_clipboard env os =
              first_match (linux_branches env os) init_no_clipboard)"
proof
  show "determine_clipboard env os =
           first_match (platform_branches env @ linux_branches env os) init_no_clipboard"
    using assms by (rule determine_clipboard_platform)
  show "generic_posix env \<longrightarrow>
            determine_clipboard env os =
              first_match (linux_branches env os) init_no_clipboard"
    by (auto simp: generic_posix_def determine_clipboard_def determine_wsl_def
        determine_mac_def determine_desktop_first_match [OF assms] split: if_splits)
qed

lemma generic_posix_desktop_env: "generic_posix desktop_env"
  by code_simp

lemma qt_starts_desktop_host: "qt_starts desktop_host"
  by (simp add: qt_starts_def desktop_host_def found_def nothing_def)

lemma first_match_desktop:
  "first_match (linux_branches desktop_env desktop_host) init_no_clipboard initial_state =
     (Inr WlClipboard,
      initial_state\<lparr>trace := [(Which ''gpaste-client'', nothing), (Which ''wl-copy'', found)]\<rparr>)"
  by code_simp

theorem determine_clipboard_ordered_witness:
  "generic_posix desktop_env \<and> qt_starts desktop_host \<and>
   determine_clipboard desktop_env desktop_host initial_state =
     (Inr WlClipboard,
      initial_state\<lparr>trace := [(Which ''gpaste-client'', nothing), (Which ''wl-copy'', found)]\<rparr>)"
  using determine_clipboard_ordered [OF qt_starts_desktop_host, of desktop_env,
      THEN conjunct2, rule_format, OF generic_posix_desktop_env]
    generic_posix_desktop_env qt_starts_desktop_host first_match_desktop
  by simp

section \<open>Explicit selection of a backend\<close>

lemma orderlyD:
  assumes "orderly m" and "m s = (r, s1)"
  shows "g_copy s1 = g_copy s" and "g_paste s1 = g_paste s" and "clock s \<le> clock s1"
  using assms by (auto simp: orderly_def dest: spec [where x = s])

lemma orderly_return [simp]: "orderly (io_return x)"
  by (simp add: orderly_def io_return_def)

lemma orderly_raise [simp]: "orderly (io_raise e)"
  by (simp add: orderly_def io_raise_def)

lemma orderly_of [simp]: "orderly (io_of r)"
  by (simp add: orderly_def io_of_def)

lemma perform_globals [simp]:
  "g_copy (snd (perform os rq s)) = g_copy s" "g_paste (snd (perform os rq s)) = g_paste s"
  by (simp_all add: perform_def Let_def)

lemma perform_clock: "clock s \<le> clock (snd (perform os rq s))"
  by (simp add: perform_def Let_def)

lemma orderly_call [simp]: "orderly (call os rq)"
  unfolding orderly_def
proof
  fix s
  obtain r s1 where p: "perform os rq s = (r, s1)"
    by (cases "perform os rq s")
  then have "snd (call os rq s) = s1"
    by (simp add: call_def split: option.splits)
  with p perform_globals [of os rq s] perform_clock [of s os rq]
  show "g_copy (snd (call os rq s)) = g_copy s \<and> g_paste (snd (call os rq s)) = g_paste s
      \<and> clock s \<le> clock (snd (call os rq s))"
    by simp
qed

lemma orderly_bind:
  assumes "orderly m" and "\<And>x. orderly (f x)"
  shows "orderly (io_bind m f)"
  unfolding orderly_def
proof
  fix s
  obtain r s1 where run: "m s = (r, s1)"
    by (cases "m s")
  note s1 = orderlyD [OF assms(1) run]
  show "g_copy (snd (io_bind m f s)) = g_copy s \<and> g_paste (snd (io_bind m f s)) = g_paste s
      \<and> clock s \<le> clock (snd (io_bind m f s))"
  proof (cases r)
    case (Inl e)
    with run s1 show ?thesis by (simp add: io_bind_def)
  next
    case (Inr x)
    obtain r2 s2 where run2: "f x s1 = (r2, s2)"
      by (cases "f x s1")
    note s2 = orderlyD [OF assms(2) run2]
    from run Inr run2 s1 s2 show ?thesis by (simp add: io_bind_def)
  qed
qed

lemma orderly_if:
  "orderly m \<Longrightarrow> orderly n \<Longrightarrow> orderly (if c then m else n)"
  by simp

lemma returns_only_return [simp]: "returns_only (io_return x) x"
  by (simp add: returns_only_def io_return_def)

lemma returns_only_raise [simp]: "returns_only (io_raise e) x"
  by (simp add: returns_only_def io_raise_def)









lemma map_of_backend_names [simp]:
  "map_of backend_names ''gpaste'' = Some Gpaste"
  "map_of backend_names ''pbcopy'' = Some OsxPbcopy"
  "map_of backend_names ''pyobjc'' = Some OsxPyobjc"
  "map_of backend_names ''qt'' = Some Qt"
  "map_of backend_names ''xclip'' = Some Xclip"
  "map_of backend_names ''xsel'' = Some Xsel"
  "map_of backend_names ''wl-clipboard'' = Some WlClipboard"
  "map_of backend_names ''klipper'' = Some Klipper"
  "map_of backend_names ''windows'' = Some Windows"
  "map_of backend_names ''wsl'' = Some Wsl"
  "map_of backend_names ''dev_clipboard'' = Some DevClipboard"
  "map_of backend_names ''no'' = Some NoClipboard"
  by (simp_all add: backend_names_def)




lemma map_of_backend_names_unique:
  "(name, b) \<in> set backend_names \<Longrightarrow> map_of backend_names name = Some b"
  by (rule map_of_is_SomeI) (simp_all add: backend_names_def)






section \<open>The lazy stubs and the sentinel\<close>

lemma invoke_sentinel:
  assumes "g_copy s = backend_copy NoClipboard" and "g_paste s = backend_paste NoClipboard"
  shows "invoke env os i s = (Inl (PyperclipException EXCEPT_MSG), s)"
  using assms
  by (cases i)
    (simp_all add: invoke_def copy_def paste_def call_backend_copy_def call_backend_paste_def
      ClipboardUnavailable_call_def io_raise_def)

lemma invoke_all_sentinel:
  assumes "g_copy s = backend_copy NoClipboard" and "g_paste s = backend_paste NoClipboard"
  shows "invoke_all env os calls s =
           (replicate (length calls) (Inl (PyperclipException EXCEPT_MSG)), s)"
  using assms
  by (induction calls) (simp_all add: invoke_sentinel)

lemma first_invoke_sentinel:
  assumes "g_copy s = lazy_load_stub_copy" and "g_paste s = lazy_load_stub_paste"
    and "fst (determine_clipboard env os s) = Inr NoClipboard"
    and "first \<in> {Copy v None, Paste None}"
  shows "invoke env os first s =
           (Inl (PyperclipException EXCEPT_MSG),
            rebind NoClipboard (snd (determine_clipboard env os s)))"
  using assms
  by (cases "determine_clipboard env os s")
    (auto simp: invoke_def copy_def paste_def lazy_load_stub_copy_call_def
      lazy_load_stub_paste_call_def call_backend_copy_def call_backend_paste_def
      ClipboardUnavailable_call_def io_raise_def)

text \<open>
  Claim C9. When both globals are still the lazy stubs and resolution yields the
  unavailable sentinel, the first call \<^verbatim>\<open>copy(v)\<close> or \<^verbatim>\<open>paste()\<close> raises
  \<^verbatim>\<open>PyperclipException(EXCEPT_MSG)\<close>, yet it has bound both globals to the sentinel pair:
  after any sequence of further calls of \<^verbatim>\<open>copy\<close> and \<^verbatim>\<open>paste\<close>, with any arguments, in
  any environment, \<^verbatim>\<open>is_available()\<close> is true, and every one of these calls has raised
  the same exception.
\<close>

theorem lazy_stub_rebinds_to_sentinel:
  assumes "g_copy s = lazy_load_stub_copy" and "g_paste s = lazy_load_stub_paste"
    and "fst (determine_clipboard env os s) = Inr NoClipboard"
    and "first \<in> {Copy v None, Paste None}"
  shows "fst (invoke env os first s) = Inl (PyperclipException EXCEPT_MSG)
       \<and> (\<forall>env' os' calls.
            is_available (snd (invoke_all env' os' calls (snd (invoke env os first s))))
            \<and> fst (invoke_all env' os' calls (snd (invoke env os first s)))
                = replicate (length calls) (Inl (PyperclipException EXCEPT_MSG)))"
proof -
  let ?s1 = "rebind NoClipboard (snd (determine_clipboard env os s))"
  have first: "invoke env os first s = (Inl (PyperclipException EXCEPT_MSG), ?s1)"
    using assms by (rule first_invoke_sentinel)
  have bound: "g_copy ?s1 = backend_copy NoClipboard" "g_paste ?s1 = backend_paste NoClipboard"
    by (simp_all add: rebind_def)
  have "invoke_all env' os' calls ?s1 =
          (replicate (length calls) (Inl (PyperclipException EXCEPT_MSG)), ?s1)"
    for env' os' calls
    using bound by (rule invoke_all_sentinel)
  with first bound show ?thesis
    by (simp add: is_available_def)
qed

lemma determine_clipboard_bare:
  "fst (determine_clipboard bare_env silent_host initial_state) = Inr NoClipboard"
  by code_simp

theorem lazy_stub_rebinds_to_sentinel_witness:
  "\<not> is_available initial_state
   \<and> fst (invoke bare_env silent_host (Copy (PyStr ''x'') None) initial_state)
       = Inl (PyperclipException EXCEPT_MSG)
   \<and> is_available (snd (invoke bare_env silent_host (Copy (PyStr ''x'') None) initial_state))
   \<and> fst (invoke_all bare_env silent_host [Paste None, Copy (PyInt 1) None]
             (snd (invoke bare_env silent_host (Copy (PyStr ''x'') None) initial_state)))
       = [Inl (PyperclipException EXCEPT_MSG), Inl (PyperclipException EXCEPT_MSG)]"
proof -
  have stubs: "g_copy initial_state = lazy_load_stub_copy"
    "g_paste initial_state = lazy_load_stub_paste"
    by (simp_all add: initial_state_def)
  have first: "Copy (PyStr ''x'') None \<in> {Copy (PyStr ''x'') None, Paste None}"
    by simp
  note fact = lazy_stub_rebinds_to_sentinel [OF stubs determine_clipboard_bare first]
  from fact have "is_available
      (snd (invoke_all bare_env silent_host []
         (snd (invoke bare_env silent_host (Copy (PyStr ''x'') None) initial_state))))"
    by blast
  moreover from fact have "fst (invoke_all bare_env silent_host [Paste None, Copy (PyInt 1) None]
        (snd (invoke bare_env silent_host (Copy (PyStr ''x'') None) initial_state)))
      = replicate (length [Paste None, Copy (PyInt 1) None])
          (Inl (PyperclipException EXCEPT_MSG))"
    by blast
  ultimately show ?thesis
    using fact stubs by (simp add: is_available_def)
qed

section \<open>Text coercion comes first\<close>

lemma io_bind_of_Inl [simp]: "io_bind (io_of (Inl e)) f s = (Inl e, s)"
  by (simp add: io_bind_def io_of_def)


lemma stringifyText_PyStr [simp]: "stringifyText env (PyStr t) = Inr t"
  by (simp add: stringifyText_def accepted_def str_of_def)












section \<open>The primary-selection flag\<close>





section \<open>Checked native calls\<close>

declare OpenClipboard_loop.simps [simp del]







section \<open>Reads keep the globals and the clock order\<close>

lemma orderly_performed:
  assumes "\<And>s. snd (m s) = snd (perform os rq s)"
  shows "orderly m"
  using assms by (simp add: orderly_def perform_clock)

lemma orderly_raise_PyperclipWindowsException [simp]:
  "orderly (raise_PyperclipWindowsException os message)"
  by (rule orderly_performed [where os = os and rq = WinError])
    (simp add: raise_PyperclipWindowsException_def split: prod.splits)

lemma orderly_executable_exists [simp]: "orderly (executable_exists os name)"
  by (rule orderly_performed [where os = os and rq = "Which name"])
    (simp add: executable_exists_def split: prod.splits)

lemma orderly_CheckedCall [simp]: "orderly (CheckedCall os f)"
  unfolding orderly_def
proof
  fix s
  obtain r s1 where p: "perform os f s = (r, s1)"
    by (cases "perform os f s")
  have s1: "g_copy s1 = g_copy s" "g_paste s1 = g_paste s" "clock s \<le> clock s1"
    using p perform_globals [of os f s] perform_clock [of s os f] by simp_all
  obtain r2 s2 where q: "raise_PyperclipWindowsException os (''Error calling '' @ fname f) s1
      = (r2 :: error + nat, s2)"
    by (cases "raise_PyperclipWindowsException os (''Error calling '' @ fname f) s1
        :: (error + nat) \<times> state")
  note s2 = orderlyD [OF orderly_raise_PyperclipWindowsException q]
  show "g_copy (snd (CheckedCall os f s)) = g_copy s
      \<and> g_paste (snd (CheckedCall os f s)) = g_paste s
      \<and> clock s \<le> clock (snd (CheckedCall os f s))"
    using p q s1 s2 by (simp add: CheckedCall_def)
qed

lemma orderly_try_finally:
  assumes "orderly body" and "orderly cleanup"
  shows "orderly (try_finally body cleanup)"
  unfolding orderly_def
proof
  fix s
  obtain r s1 where run: "body s = (r, s1)"
    by (cases "body s")
  obtain r2 s2 where run2: "cleanup s1 = (r2, s2)"
    by (cases "cleanup s1")
  note s1 = orderlyD [OF assms(1) run]
  note s2 = orderlyD [OF assms(2) run2]
  show "g_copy (snd (try_finally body cleanup s)) = g_copy s
      \<and> g_paste (snd (try_finally body cleanup s)) = g_paste s
      \<and> clock s \<le> clock (snd (try_finally body cleanup s))"
    using run run2 s1 s2 by (cases r2) (simp_all add: try_finally_def)
qed



lemma orderly_window:
  assumes "\<And>hwnd. orderly (body hwnd)"
  shows "orderly (window os body)"
  unfolding window_def
  by (intro orderly_bind orderly_try_finally assms) simp_all

lemma orderly_check_call [simp]: "orderly (check_call os args)"
  unfolding check_call_def by (intro orderly_bind orderly_if) simp_all




lemma orderly_ClipboardUnavailable_call [simp]: "orderly ClipboardUnavailable_call"
  by (simp add: ClipboardUnavailable_call_def)


section \<open>Waiting for a new paste\<close>

















section \<open>The native backend: retries and release\<close>


lemma track_quiet [simp]:
  "track (EmptyClipboard, r) h = h" "track (Wcslen t, r) h = h"
  "track (GlobalAlloc a b, r) h = h" "track (GlobalLock a, r) h = h"
  "track (GlobalUnlock a, r) h = h" "track (SetClipboardData a b, r) h = h"
  "track (GetClipboardData a, r) h = h" "track (Memmove a t b, r) h = h"
  "track (Read_wchar_p a, r) h = h" "track (WinError, r) h = h"
  "track (Sleep d, r) h = h"
  by (cases h; simp)+

lemma attempts_simps [simp]:
  "attempts [] = 0"
  "attempts ((OpenClipboard hwnd, r) # evs) = Suc (attempts evs)"
  "attempts ((Sleep d, r) # evs) = attempts evs"
  by (simp_all add: attempts_def)





lemma neutral_return [simp]: "neutral (io_return x)"
  by (simp add: neutral_def io_return_def)

lemma neutral_raise [simp]: "neutral (io_raise e)"
  by (simp add: neutral_def io_raise_def)

lemma neutral_of [simp]: "neutral (io_of r)"
  by (simp add: neutral_def io_of_def)








lemma neutral_closing: "neutral m \<Longrightarrow> closing m"
  unfolding neutral_def closing_def by metis






lemma held_events_of:
  assumes "trace (snd (m s)) = trace s @ evs"
  shows "events_of m s = evs"
  using assms by (simp add: events_of_def)




















section \<open>Reading the clipboard\<close>


lemma returns_return [simp]: "returns (io_return x) P = P x"
  by (simp add: returns_def io_return_def)

lemma returns_raise [simp]: "returns (io_raise e) P"
  by (simp add: returns_def io_raise_def)
























end
